theory Spec2Isabelle
  imports Complex_Main "HOL-Library.Word"
begin

section \<open>Data model of whisper\_server.py\<close>

text \<open>
  Strings are Python \<open>str\<close> values over code points below 256, bytes are 8-bit words.
  A model handle is an opaque object reference.  The request body is the JSON object the
  handler receives, restricted to string-valued fields; \<open>None\<close> is a key that is
  absent.
\<close>

type_synonym byte = "8 word"
type_synonym handle = nat

text \<open>
  A Python float: a finite number, an infinity or a NaN.  The engine's two floats are only
  passed on, never computed with.
\<close>

datatype pyfloat = Finite real | PosInf | NegInf | NaN

record segment =
  seg_text :: string

record transcription_info =
  language :: string
  language_probability :: pyfloat
  duration :: pyfloat

record content =
  c_text :: string
  c_language :: string
  c_language_probability :: pyfloat
  c_duration :: pyfloat

datatype response = JSONResponse content | HTTPException nat string

record request =
  r_audio :: "string option"
  r_model :: "string option"
  r_language :: "string option"
  r_format :: "string option"

text \<open>
  The outcome of \<open>subprocess.run\<close>: a completed process with its return code and
  \<open>result.stderr.decode()\<close> (\<open>None\<close> when the decoding raises), or an exception
  (\<open>TimeoutExpired\<close>, \<open>OSError\<close>).
\<close>

datatype proc_result = CompletedProcess int "string option" | RunRaised string

text \<open>The calls the server makes to its external collaborators, in order.\<close>

datatype event =
    Which string
  | SubprocessRun "string list" nat
  | LoadModel string string string string
  | EngineTranscribe handle string "byte list option" "string option"

text \<open>
  Everything the module takes from its host: the four configuration values read from the
  process environment, the \<open>torch\<close> probe (\<open>None\<close> when the import fails, else whether
  CUDA and MPS are available), the \<open>WhisperModel\<close> constructor, the engine's
  \<open>transcribe\<close> (its segments already collected by \<open>list\<close>; \<open>Inl\<close> when either raises),
  \<open>base64.b64decode\<close>, \<open>tempfile.NamedTemporaryFile\<close> (for a suffix, the directory and
  random stem of the file it creates, whose name is the stem followed by the suffix), the
  exception \<open>tmp_file.write\<close> raises and the exception the flush and close raise when the
  \<open>with\<close> block is left (if any: a small payload is buffered and fails only there),
  \<open>shutil.which\<close>, \<open>subprocess.run\<close> (its result and the bytes it leaves at the output
  path, if any, given the input file's content) and \<open>os.unlink\<close> (the error it raises
  for a path, if any).
\<close>

record env =
  DEFAULT_MODEL :: string
  DEVICE :: string
  COMPUTE_TYPE :: string
  MODELS_DIR :: string
  torch :: "(bool \<times> bool) option"
  WhisperModel :: "string \<Rightarrow> string \<Rightarrow> string \<Rightarrow> string \<Rightarrow> string + handle"
  engine_transcribe :: "handle \<Rightarrow> string \<Rightarrow> byte list option \<Rightarrow> string option
                          \<Rightarrow> string + (segment list \<times> transcription_info)"
  b64decode :: "string \<Rightarrow> string + byte list"
  NamedTemporaryFile :: "string \<Rightarrow> string + string"
  tmp_write :: "string \<Rightarrow> byte list \<Rightarrow> string option"
  tmp_close :: "string \<Rightarrow> byte list \<Rightarrow> string option"
  which :: "string \<Rightarrow> string option"
  subprocess_run :: "string list \<Rightarrow> nat \<Rightarrow> byte list option \<Rightarrow> proc_result \<times> byte list option"
  unlink_error :: "string \<Rightarrow> string option"

text \<open>
  The mutable state: the files of the temporary directory, the module globals
  \<open>model_cache\<close> and \<open>current_model_name\<close>, and the trace of external calls.
\<close>

record world =
  files :: "string \<rightharpoonup> byte list"
  model_cache :: "string \<rightharpoonup> handle"
  current_model_name :: "string option"
  trace :: "event list"

definition world0 :: world where
  "world0 = \<lparr>files = Map.empty, model_cache = Map.empty, current_model_name = None, trace = []\<rparr>"

definition AVAILABLE_MODELS :: "string list" where
  "AVAILABLE_MODELS =
     [''tiny'', ''tiny.en'', ''base'', ''base.en'', ''small'', ''small.en'',
      ''medium'', ''medium.en'', ''large-v2'', ''large-v3'']"

section \<open>String helpers of the Python library\<close>

text \<open>\<open>s.rsplit(sep, 1)[0]\<close>: the text before the last separator, or all of \<open>s\<close>.\<close>

definition rsplit1_head :: "char \<Rightarrow> string \<Rightarrow> string" where
  "rsplit1_head sep s =
     (if sep \<in> set s then rev (tl (dropWhile (\<lambda>c. c \<noteq> sep) (rev s))) else s)"

text \<open>\<open>s.split(sep)\<close> for a one-character separator: never empty.\<close>

fun split_on :: "char \<Rightarrow> string \<Rightarrow> string list" where
  "split_on sep [] = [[]]"
| "split_on sep (c # cs) =
     (if c = sep then [] # split_on sep cs
      else (case split_on sep cs of
              [] \<Rightarrow> [[c]]
            | x # xs \<Rightarrow> (c # x) # xs))"

definition lower_char :: "char \<Rightarrow> char" where
  "lower_char c =
     (let n = (of_char c :: nat)
      in if (65 \<le> n \<and> n \<le> 90) \<or> (192 \<le> n \<and> n \<le> 222 \<and> n \<noteq> 215)
         then char_of (n + 32) else c)"

definition lower :: "string \<Rightarrow> string" where
  "lower s = map lower_char s"

definition isspace :: "char \<Rightarrow> bool" where
  "isspace c = ((of_char c :: nat) \<in> {9, 10, 11, 12, 13, 28, 29, 30, 31, 32, 133, 160})"

definition strip :: "string \<Rightarrow> string" where
  "strip s = rev (dropWhile isspace (rev (dropWhile isspace s)))"

fun join :: "string \<Rightarrow> string list \<Rightarrow> string" where
  "join sep [] = []"
| "join sep [x] = x"
| "join sep (x # y # ys) = x @ sep @ join sep (y # ys)"

section \<open>The server\<close>

subsection \<open>convert\_to\_wav\<close>

text \<open>Line 67: the name of the converted file.\<close>

definition output_path_of :: "string \<Rightarrow> string" where
  "output_path_of input_path = rsplit1_head CHR ''.'' input_path @ ''_converted.wav''"

text \<open>Lines 75 to 81: the command line of the transcoder.\<close>

definition ffmpeg_args :: "string \<Rightarrow> string \<Rightarrow> string \<Rightarrow> string list" where
  "ffmpeg_args ffmpeg_path input_path output_path =
     [ffmpeg_path, ''-y'', ''-i'', input_path, ''-ar'', ''16000'', ''-ac'', ''1'',
      ''-c:a'', ''pcm_s16le'', output_path]"

text \<open>
  The body of the \<open>try\<close> block: \<open>Inl\<close> is an exception raised inside it.  The process
  runs with a timeout of 30 seconds, and may leave bytes at the output path whatever its
  result is.
\<close>

definition convert_try :: "env \<Rightarrow> string \<Rightarrow> string \<Rightarrow> string \<Rightarrow> world \<Rightarrow> (string + string) \<times> world" where
  "convert_try E ffmpeg_path input_path output_path w =
     (let args = ffmpeg_args ffmpeg_path input_path output_path;
          ran = subprocess_run E args 30 (files w input_path);
          w1 = w\<lparr>files := (case snd ran of None \<Rightarrow> files w | Some b \<Rightarrow> (files w)(output_path \<mapsto> b)),
                 trace := trace w @ [SubprocessRun args 30]\<rparr>
      in case fst ran of
           RunRaised e \<Rightarrow> (Inl e, w1)
         | CompletedProcess returncode stderr \<Rightarrow>
             if returncode = 0 \<and> output_path \<in> dom (files w1) then (Inr output_path, w1)
             else (case stderr of
                     None \<Rightarrow> (Inl ''UnicodeDecodeError'', w1)
                   | Some msg \<Rightarrow> (Inr input_path, w1)))"

definition convert_to_wav :: "env \<Rightarrow> string \<Rightarrow> world \<Rightarrow> string \<times> world" where
  "convert_to_wav E input_path w =
     (let output_path = output_path_of input_path;
          w1 = w\<lparr>trace := trace w @ [Which ''ffmpeg'']\<rparr>
      in case which E ''ffmpeg'' of
           None \<Rightarrow> (input_path, w1)
         | Some ffmpeg_path \<Rightarrow>
             if ffmpeg_path = [] then (input_path, w1)
             else (case convert_try E ffmpeg_path input_path output_path w1 of
                     (Inl e, w2) \<Rightarrow> (input_path, w2)
                   | (Inr p, w2) \<Rightarrow> (p, w2)))"

subsection \<open>get\_model\<close>

definition resolve_device :: "env \<Rightarrow> string" where
  "resolve_device E =
     (if DEVICE E = ''auto'' then
        (case torch E of
           None \<Rightarrow> ''cpu''
         | Some (cuda, mps) \<Rightarrow> if cuda then ''cuda'' else if mps then ''cpu'' else ''cpu'')
      else DEVICE E)"

definition resolve_compute_type :: "env \<Rightarrow> string \<Rightarrow> string" where
  "resolve_compute_type E device =
     (if COMPUTE_TYPE E = ''auto'' then (if device = ''cuda'' then ''float16'' else ''int8'')
      else COMPUTE_TYPE E)"

definition get_model :: "env \<Rightarrow> string \<Rightarrow> world \<Rightarrow> (string + handle) \<times> world" where
  "get_model E model_name0 w =
     (let model_name = (if model_name0 \<notin> set AVAILABLE_MODELS then DEFAULT_MODEL E else model_name0)
      in case model_cache w model_name of
           Some cached \<Rightarrow> (Inr cached, w)
         | None \<Rightarrow>
             (let device = resolve_device E;
                  compute_type = resolve_compute_type E device;
                  w1 = w\<lparr>trace := trace w @ [LoadModel model_name device compute_type (MODELS_DIR E)]\<rparr>
              in case WhisperModel E model_name device compute_type (MODELS_DIR E) of
                   Inl e \<Rightarrow> (Inl e, w1)
                 | Inr loaded \<Rightarrow>
                     (Inr loaded,
                      w1\<lparr>model_cache := (model_cache w1)(model_name \<mapsto> loaded),
                         current_model_name := Some model_name\<rparr>)))"

text \<open>The startup hook loads the default model and swallows a failure.\<close>

definition startup_event :: "env \<Rightarrow> world \<Rightarrow> world" where
  "startup_event E w = snd (get_model E (DEFAULT_MODEL E) w)"

subsection \<open>The health endpoint\<close>

record health_report =
  status :: string
  model_loaded :: bool
  current_model :: "string option"
  available_models :: "string list"

definition health :: "world \<Rightarrow> health_report" where
  "health w = \<lparr>status = ''healthy'', model_loaded = (current_model_name w \<noteq> None),
               current_model = current_model_name w, available_models = AVAILABLE_MODELS\<rparr>"

subsection \<open>The transcribe endpoint\<close>

definition CONVERT_FORMATS :: "string list" where
  "CONVERT_FORMATS = [''webm'', ''ogg'', ''mp4'', ''m4a'', ''opus'', ''oga'']"

text \<open>Lines 209 to 213: the text after the first comma, if there is one, is decoded.\<close>

definition decode_audio :: "env \<Rightarrow> string \<Rightarrow> string + byte list" where
  "decode_audio E audio_data =
     b64decode E (if CHR '','' \<in> set audio_data then split_on CHR '','' audio_data ! 1
                  else audio_data)"

text \<open>\<open>os.unlink\<close> inside \<open>try: ... except: pass\<close>.\<close>

definition unlink_quietly :: "env \<Rightarrow> string \<Rightarrow> world \<Rightarrow> world" where
  "unlink_quietly E p w =
     (case unlink_error E p of
        Some e \<Rightarrow> w
      | None \<Rightarrow> w\<lparr>files := (files w)(p := None)\<rparr>)"

text \<open>The \<open>finally\<close> block, from the two local variables as they stand when it runs.\<close>

definition cleanup :: "env \<Rightarrow> string option \<Rightarrow> string option \<Rightarrow> world \<Rightarrow> world" where
  "cleanup E tmp_path converted_path w =
     (let w1 = (case tmp_path of
                  None \<Rightarrow> w
                | Some p \<Rightarrow> if p = [] then w else unlink_quietly E p w)
      in case converted_path of
           None \<Rightarrow> w1
         | Some c \<Rightarrow> if c \<noteq> [] \<and> Some c \<noteq> tmp_path then unlink_quietly E c w1 else w1)"

text \<open>
  The constructor of \<open>JSONResponse\<close> renders its content at once, with
  \<open>json.dumps(..., allow_nan=False)\<close>: a float that is not finite raises a \<open>ValueError\<close>
  (newer versions of the library add the value to the message).
\<close>

definition JSONResponse_render :: "content \<Rightarrow> string + content" where
  "JSONResponse_render c =
     (case (c_language_probability c, c_duration c) of
        (Finite p, Finite d) \<Rightarrow> Inr c
      | _ \<Rightarrow> Inl ''Out of range float values are not JSON compliant'')"

text \<open>
  The \<open>try\<close> block: its outcome (\<open>Inl\<close> the message of the exception), the values of
  \<open>tmp_path\<close> and \<open>converted_path\<close> when it is left, and the state.  A write that
  fails raises before \<open>tmp_path\<close> is assigned, a flush or close that fails raises after;
  what a failed write leaves in the file is not modelled, the file is left empty.
\<close>

definition transcribe_try ::
  "env \<Rightarrow> string \<Rightarrow> string \<Rightarrow> string option \<Rightarrow> string \<Rightarrow> world
     \<Rightarrow> (string + content) \<times> string option \<times> string option \<times> world" where
  "transcribe_try E audio_data model_name lang file_format w =
     (case decode_audio E audio_data of
        Inl e \<Rightarrow> (Inl e, None, None, w)
      | Inr audio_bytes \<Rightarrow>
          (case NamedTemporaryFile E (''.'' @ file_format) of
             Inl e \<Rightarrow> (Inl e, None, None, w)
           | Inr stem \<Rightarrow>
               (case tmp_write E (stem @ ''.'' @ file_format) audio_bytes of
                  Some e \<Rightarrow>
                    (Inl (case tmp_close E (stem @ ''.'' @ file_format) audio_bytes of
                            None \<Rightarrow> e
                          | Some e' \<Rightarrow> e'),
                     None, None, w\<lparr>files := (files w)(stem @ ''.'' @ file_format \<mapsto> [])\<rparr>)
                | None \<Rightarrow>
                  (case tmp_close E (stem @ ''.'' @ file_format) audio_bytes of
                     Some e \<Rightarrow>
                       (Inl e, Some (stem @ ''.'' @ file_format), None,
                        w\<lparr>files := (files w)(stem @ ''.'' @ file_format \<mapsto> [])\<rparr>)
                   | None \<Rightarrow>
                    (let tmp_path = stem @ ''.'' @ file_format;
                         w1 = w\<lparr>files := (files w)(tmp_path \<mapsto> audio_bytes)\<rparr>;
                         conv = (if lower file_format \<in> set CONVERT_FORMATS
                                 then (case convert_to_wav E tmp_path w1 of
                                         (p, w') \<Rightarrow> (Some p, w'))
                                 else (None, w1));
                         converted_path = fst conv;
                         w2 = snd conv;
                         audio_path = (case converted_path of
                                         None \<Rightarrow> tmp_path
                                       | Some p \<Rightarrow> if p \<noteq> tmp_path then p else tmp_path)
                     in case get_model E model_name w2 of
                          (Inl e, w3) \<Rightarrow> (Inl e, Some tmp_path, converted_path, w3)
                        | (Inr whisper_model, w3) \<Rightarrow>
                            (let audio = files w3 audio_path;
                                 w4 = w3\<lparr>trace := trace w3 @
                                        [EngineTranscribe whisper_model audio_path audio lang]\<rparr>
                             in case engine_transcribe E whisper_model audio_path audio lang of
                                  Inl e \<Rightarrow> (Inl e, Some tmp_path, converted_path, w4)
                                | Inr (segments_list, info) \<Rightarrow>
                                    (JSONResponse_render
                                       \<lparr>c_text = join '' '' (map (\<lambda>s. strip (seg_text s)) segments_list),
                                          c_language = language info,
                                          c_language_probability = language_probability info,
                                          c_duration = duration info\<rparr>,
                                     Some tmp_path, converted_path, w4)))))))"

definition transcribe :: "env \<Rightarrow> request \<Rightarrow> world \<Rightarrow> response \<times> world" where
  "transcribe E request w =
     (let audio_data = r_audio request;
          model_name = (case r_model request of None \<Rightarrow> DEFAULT_MODEL E | Some m \<Rightarrow> m);
          lang = (case r_language request of
                    None \<Rightarrow> None
                  | Some l \<Rightarrow> if l = ''auto'' \<or> l = '''' then None else Some l);
          file_format = (case r_format request of None \<Rightarrow> ''ogg'' | Some f \<Rightarrow> f)
      in case audio_data of
           None \<Rightarrow> (HTTPException 400 ''No audio data provided'', w)
         | Some a \<Rightarrow>
             if a = [] then (HTTPException 400 ''No audio data provided'', w)
             else (case transcribe_try E a model_name lang file_format w of
                     (outcome, tmp_path, converted_path, w1) \<Rightarrow>
                       ((case outcome of
                           Inl e \<Rightarrow> HTTPException 500 e
                         | Inr c \<Rightarrow> JSONResponse c),
                        cleanup E tmp_path converted_path w1)))"

section \<open>A sample host\<close>

text \<open>
  \<open>base64.b64decode\<close> as CPython's \<open>binascii.a2b_base64\<close> computes it by default (not
  strict): characters outside the alphabet are skipped, a complete padding ends the input,
  an incomplete last group is an error (for a single left-over character the message is
  shortened here: the library adds the count of data characters).  A string that is not
  ASCII is refused first.
\<close>

definition b64_digit :: "char \<Rightarrow> nat option" where
  "b64_digit c =
     (let n = (of_char c :: nat)
      in if 65 \<le> n \<and> n \<le> 90 then Some (n - 65)
         else if 97 \<le> n \<and> n \<le> 122 then Some (n - 71)
         else if 48 \<le> n \<and> n \<le> 57 then Some (n + 4)
         else if n = 43 then Some 62
         else if n = 47 then Some 63
         else None)"

fun a2b_base64 :: "nat \<Rightarrow> nat \<Rightarrow> nat \<Rightarrow> byte list \<Rightarrow> string \<Rightarrow> string + byte list" where
  "a2b_base64 quad_pos leftchar pads out [] =
     (if quad_pos = 0 then Inr out
      else if quad_pos = 1 then Inl ''Invalid base64-encoded string''
      else Inl ''Incorrect padding'')"
| "a2b_base64 quad_pos leftchar pads out (c # cs) =
     (if c = CHR ''='' then
        (if 2 \<le> quad_pos \<and> 4 \<le> quad_pos + (pads + 1) then Inr out
         else a2b_base64 quad_pos leftchar (if 2 \<le> quad_pos then pads + 1 else pads) out cs)
      else (case b64_digit c of
              None \<Rightarrow> a2b_base64 quad_pos leftchar pads out cs
            | Some d \<Rightarrow>
                if quad_pos = 0 then a2b_base64 1 d 0 out cs
                else if quad_pos = 1 then
                  a2b_base64 2 (d mod 16) 0 (out @ [of_nat (leftchar * 4 + d div 16)]) cs
                else if quad_pos = 2 then
                  a2b_base64 3 (d mod 4) 0 (out @ [of_nat (leftchar * 16 + d div 4)]) cs
                else a2b_base64 0 0 0 (out @ [of_nat (leftchar * 64 + d)]) cs))"

definition b64decode_lib :: "string \<Rightarrow> string + byte list" where
  "b64decode_lib s =
     (if list_ex (\<lambda>c. 128 \<le> (of_char c :: nat)) s
      then Inl ''string argument should contain only ASCII characters''
      else a2b_base64 0 0 0 [] s)"

text \<open>
  A host with the default configuration, no \<open>torch\<close>, a transcoder that succeeds, an
  engine that hears two segments, and a file system that never refuses.
\<close>

definition env0 :: env where
  "env0 = \<lparr>DEFAULT_MODEL = ''base'', DEVICE = ''auto'', COMPUTE_TYPE = ''auto'',
           MODELS_DIR = ''/root/.cache/whisper'', torch = None,
           WhisperModel = (\<lambda>name device compute_type root. Inr (length name)),
           engine_transcribe = (\<lambda>h p audio lang.
              Inr ([\<lparr>seg_text = '' Hello''\<rparr>, \<lparr>seg_text = '' world. ''\<rparr>],
                   \<lparr>language = ''en'', language_probability = Finite 1, duration = Finite 2\<rparr>)),
           b64decode = b64decode_lib,
           NamedTemporaryFile = (\<lambda>suffix. Inr ''/tmp/tmpk3x9''),
           tmp_write = (\<lambda>p b. None),
           tmp_close = (\<lambda>p b. None),
           which = (\<lambda>c. Some (''/usr/bin/'' @ c)),
           subprocess_run = (\<lambda>args timeout input. (CompletedProcess 0 (Some ''''), Some [82, 73, 70, 70])),
           unlink_error = (\<lambda>p. None)\<rparr>"

text \<open>The same host with an engine that cannot load any model.\<close>

definition env_load_error :: env where
  "env_load_error =
     env0\<lparr>WhisperModel := (\<lambda>name device compute_type root.
              Inl ''RuntimeError: unable to load the model'')\<rparr>"

text \<open>The same host started with \<open>WHISPER_DEFAULT_MODEL=large\<close>.\<close>

definition env_default_large :: env where
  "env_default_large = env0\<lparr>DEFAULT_MODEL := ''large''\<rparr>"

text \<open>A request with the base64 of the two bytes \<open>hi\<close> and nothing else.\<close>

definition request_hi :: request where
  "request_hi = \<lparr>r_audio = Some ''aGk='', r_model = None, r_language = None, r_format = None\<rparr>"

text \<open>
  The sample host without a transcoder, with one that runs into the timeout after it has
  written two bytes, and with one that exits with code 1 after it has written two bytes.
\<close>

definition env_no_ffmpeg :: env where
  "env_no_ffmpeg = env0\<lparr>which := (\<lambda>c. None)\<rparr>"

definition env_ffmpeg_timeout :: env where
  "env_ffmpeg_timeout =
     env0\<lparr>subprocess_run := (\<lambda>args timeout input.
              (RunRaised ''Command timed out after 30 seconds'', Some [82, 73]))\<rparr>"

definition env_ffmpeg_exit1 :: env where
  "env_ffmpeg_exit1 =
     env0\<lparr>subprocess_run := (\<lambda>args timeout input.
              (CompletedProcess 1 (Some ''Conversion failed!''), Some [82, 73]))\<rparr>"

text \<open>A state in which the decoded upload is on disk.\<close>

definition world_ogg :: world where
  "world_ogg = world0\<lparr>files := [''/tmp/tmpk3x9.ogg'' \<mapsto> [104, 105]]\<rparr>"

text \<open>Calls that belong to a conversion, and the audio content a call hands to the engine.\<close>

fun is_converter_call :: "event \<Rightarrow> bool" where
  "is_converter_call (Which c) = True"
| "is_converter_call (SubprocessRun args timeout) = True"
| "is_converter_call (LoadModel n d c r) = False"
| "is_converter_call (EngineTranscribe h p audio l) = False"

fun engine_input :: "event \<Rightarrow> byte list option option" where
  "engine_input (EngineTranscribe h p audio l) = Some audio"
| "engine_input (Which c) = None"
| "engine_input (SubprocessRun args timeout) = None"
| "engine_input (LoadModel n d c r) = None"

text \<open>The external calls made between two states.\<close>

definition new_events :: "world \<Rightarrow> world \<Rightarrow> event list" where
  "new_events w w' = drop (length (trace w)) (trace w')"

text \<open>The sample request with the declared format \<open>WAV\<close>.\<close>

definition request_wav :: request where
  "request_wav = \<lparr>r_audio = Some ''aGk='', r_model = None, r_language = None, r_format = Some ''WAV''\<rparr>"

text \<open>The sample host with a full disk: the buffered payload cannot be flushed.\<close>

definition env_close_fails :: env where
  "env_close_fails = env0\<lparr>tmp_close := (\<lambda>p b. Some ''[Errno 28] No space left on device'')\<rparr>"

text \<open>The sample host on which no file can be deleted.\<close>

definition env_unlink_fails :: env where
  "env_unlink_fails = env0\<lparr>unlink_error := (\<lambda>p. Some ''PermissionError'')\<rparr>"

section \<open>The states of the registry\<close>

text \<open>
  The states the process can be in: the module's initial globals, and what the startup
  hook, a call of \<open>get_model\<close> and a request to the handler make of a state.
\<close>

inductive reachable :: "env \<Rightarrow> world \<Rightarrow> bool" for E :: env where
  reachable_init: "reachable E world0"
| reachable_startup: "reachable E w \<Longrightarrow> reachable E (startup_event E w)"
| reachable_get_model: "reachable E w \<Longrightarrow> reachable E (snd (get_model E n w))"
| reachable_transcribe: "reachable E w \<Longrightarrow> reachable E (snd (transcribe E r w))"

text \<open>
  The invariant of \<open>current_model_name\<close>: when set, it is a supported name or the
  configured default, and a key of the cache.
\<close>

definition registry_inv :: "env \<Rightarrow> world \<Rightarrow> bool" where
  "registry_inv E w =
     (case current_model_name w of
        None \<Rightarrow> True
      | Some n \<Rightarrow> (n \<in> set AVAILABLE_MODELS \<or> n = DEFAULT_MODEL E) \<and> n \<in> dom (model_cache w))"

text \<open>On the sample host: \<open>tiny\<close> was loaded, then \<open>small\<close>.\<close>

definition world_tiny_small :: world where
  "world_tiny_small = snd (get_model env0 ''small'' (snd (get_model env0 ''tiny'' world0)))"

section \<open>The model registry\<close>

subsection \<open>What each step leaves alone\<close>

lemma get_model_files: "files (snd (get_model E n w)) = files w"
  by (simp add: get_model_def Let_def split: option.splits sum.splits)

lemma convert_to_wav_registry:
  "model_cache (snd (convert_to_wav E p w)) = model_cache w"
  "current_model_name (snd (convert_to_wav E p w)) = current_model_name w"
  by (auto simp: convert_to_wav_def convert_try_def Let_def
      split: option.splits sum.splits proc_result.splits prod.splits)

lemma cleanup_registry:
  "model_cache (cleanup E t c w) = model_cache w"
  "current_model_name (cleanup E t c w) = current_model_name w"
  by (auto simp: cleanup_def unlink_quietly_def Let_def split: option.splits)

lemma registry_inv_cong:
  "model_cache w' = model_cache w \<Longrightarrow> current_model_name w' = current_model_name w \<Longrightarrow>
   registry_inv E w' = registry_inv E w"
  by (simp add: registry_inv_def split: option.splits)

lemma registry_inv_frame [simp]:
  "registry_inv E (w\<lparr>files := f\<rparr>) = registry_inv E w"
  "registry_inv E (w\<lparr>trace := t\<rparr>) = registry_inv E w"
  "registry_inv E (snd (convert_to_wav E p w)) = registry_inv E w"
  "registry_inv E (cleanup E tp cp w) = registry_inv E w"
  by (rule registry_inv_cong; simp add: convert_to_wav_registry cleanup_registry)+

lemma convert_to_wav_inv_dest:
  "convert_to_wav E p w = (q, w') \<Longrightarrow> registry_inv E w' = registry_inv E w"
  using registry_inv_frame(3) [of E p w] by simp

subsection \<open>Unsupported identifiers\<close>

text \<open>
  Claim C1, as amended.  For a model identifier outside \<open>AVAILABLE_MODELS\<close>,
  \<open>get_model\<close> never rejects the identifier: it does exactly what a call with the
  configured default identifier does.  It returns the default's cached handle when there
  is one, and otherwise the outcome of loading the default: the new handle, or the
  loader's exception.
\<close>

theorem get_model_unsupported:
  assumes "model_name \<notin> set AVAILABLE_MODELS"
  shows "get_model E model_name w = get_model E (DEFAULT_MODEL E) w
       \<and> (\<forall>h. model_cache w (DEFAULT_MODEL E) = Some h \<longrightarrow>
              get_model E model_name w = (Inr h, w))
       \<and> (model_cache w (DEFAULT_MODEL E) = None \<longrightarrow>
            fst (get_model E model_name w) =
              WhisperModel E (DEFAULT_MODEL E) (resolve_device E)
                (resolve_compute_type E (resolve_device E)) (MODELS_DIR E))"
  using assms by (simp add: get_model_def Let_def split: sum.splits)

theorem get_model_unsupported_witness:
  "''huge'' \<notin> set AVAILABLE_MODELS
   \<and> get_model env0 ''huge'' world0 = get_model env0 (DEFAULT_MODEL env0) world0
   \<and> fst (get_model env0 ''huge'' world0) = Inr 4"
  using get_model_unsupported [of "''huge''" env0 world0]
  by (simp add: AVAILABLE_MODELS_def env0_def world0_def resolve_device_def
      resolve_compute_type_def get_model_def Let_def)

text \<open>
  Claim C1 as stated says the call does not raise.  On a host whose engine cannot load the
  default model, the call with an unsupported identifier raises the loader's exception.
\<close>

theorem get_model_unsupported_raises:
  "''huge'' \<notin> set AVAILABLE_MODELS
   \<and> fst (get_model env_load_error ''huge'' world0)
       = Inl ''RuntimeError: unable to load the model''"
  by (simp add: AVAILABLE_MODELS_def env_load_error_def env0_def world0_def get_model_def Let_def)

subsection \<open>Calls one after the other\<close>

text \<open>
  A call that returns a handle makes the next call with the same identifier a cache hit:
  the same handle, no load, no change of state.
\<close>

lemma get_model_second_call:
  "get_model E n w = (Inr h, w') \<Longrightarrow> get_model E n w' = (Inr h, w')"
  by (auto simp: get_model_def Let_def split: option.splits sum.splits if_splits)

subsection \<open>The invariant of the current model name\<close>

lemma get_model_inv: "registry_inv E w \<Longrightarrow> registry_inv E (snd (get_model E n w))"
  by (auto simp: registry_inv_def get_model_def Let_def split: option.splits sum.splits)

lemma get_model_inv_dest:
  "get_model E n w = (x, w') \<Longrightarrow> registry_inv E w \<Longrightarrow> registry_inv E w'"
  using get_model_inv [of E w n] by simp

lemma transcribe_try_inv:
  "transcribe_try E a m l f w = (out, t, c, w') \<Longrightarrow> registry_inv E w \<Longrightarrow> registry_inv E w'"
  unfolding transcribe_try_def Let_def
  by (auto split: sum.splits option.splits prod.splits if_splits dest!: get_model_inv_dest
      dest: convert_to_wav_inv_dest)

lemma transcribe_inv: "registry_inv E w \<Longrightarrow> registry_inv E (snd (transcribe E r w))"
  unfolding transcribe_def Let_def
  by (auto split: option.splits prod.splits dest: transcribe_try_inv)

lemma reachable_inv: "reachable E w \<Longrightarrow> registry_inv E w"
proof (induction rule: reachable.induct)
  case reachable_init
  show ?case by (simp add: registry_inv_def world0_def)
next
  case (reachable_startup w)
  then show ?case by (simp add: startup_event_def get_model_inv)
next
  case (reachable_get_model w n)
  then show ?case by (simp add: get_model_inv)
next
  case (reachable_transcribe w r)
  then show ?case by (simp add: transcribe_inv)
qed

lemma world_tiny_small_reachable: "reachable env0 world_tiny_small"
  unfolding world_tiny_small_def by (intro reachable_get_model reachable_init)

lemma world_tiny_small_eval:
  "model_cache world_tiny_small ''tiny'' = Some 4"
  "model_cache world_tiny_small ''small'' = Some 5"
  "current_model_name world_tiny_small = Some ''small''"
  by (simp_all add: world_tiny_small_def get_model_def Let_def env0_def world0_def
      AVAILABLE_MODELS_def resolve_device_def resolve_compute_type_def)

text \<open>
  Claim C9, as amended.  In every state the process reaches, \<open>current_model_name\<close>, when
  set, is a key of the model cache and is a supported name or the configured default (so
  a supported name whenever the default is one).  \<open>get_model\<close> sets it only when it loads a
  model, to the name it loaded, and leaves it as it was on a cache hit and on a failed
  load; so the health endpoint's \<open>current_model\<close> is the model loaded last, not the model
  used last.
\<close>

theorem current_model_name_invariant:
  assumes "reachable E w"
  shows "registry_inv E w
       \<and> current_model (health (snd (get_model E n w))) =
           (let m = (if n \<notin> set AVAILABLE_MODELS then DEFAULT_MODEL E else n)
            in case model_cache w m of
                 Some cached \<Rightarrow> current_model_name w
               | None \<Rightarrow>
                   (case WhisperModel E m (resolve_device E)
                           (resolve_compute_type E (resolve_device E)) (MODELS_DIR E) of
                      Inl e \<Rightarrow> current_model_name w
                    | Inr loaded \<Rightarrow> Some m))"
proof
  show "registry_inv E w" using assms by (rule reachable_inv)
next
  show "current_model (health (snd (get_model E n w))) =
           (let m = (if n \<notin> set AVAILABLE_MODELS then DEFAULT_MODEL E else n)
            in case model_cache w m of
                 Some cached \<Rightarrow> current_model_name w
               | None \<Rightarrow>
                   (case WhisperModel E m (resolve_device E)
                           (resolve_compute_type E (resolve_device E)) (MODELS_DIR E) of
                      Inl e \<Rightarrow> current_model_name w
                    | Inr loaded \<Rightarrow> Some m))"
    by (simp add: health_def get_model_def Let_def split: option.splits sum.splits)
qed

theorem current_model_name_invariant_witness:
  "reachable env0 world_tiny_small
   \<and> registry_inv env0 world_tiny_small
   \<and> fst (get_model env0 ''tiny'' world_tiny_small) = Inr 4
   \<and> current_model (health (snd (get_model env0 ''tiny'' world_tiny_small))) = Some ''small''"
  using current_model_name_invariant [OF world_tiny_small_reachable, of "''tiny''"]
        world_tiny_small_reachable
  by (simp add: world_tiny_small_eval AVAILABLE_MODELS_def get_model_def)

text \<open>
  Claim C9 as stated puts \<open>current_model_name\<close> in the supported set.  Started with the
  default model \<open>large\<close>, which the set does not hold, the startup hook loads it and
  records its name.
\<close>

theorem current_model_name_outside_supported_set:
  "reachable env_default_large (startup_event env_default_large world0)
   \<and> current_model_name (startup_event env_default_large world0) = Some ''large''
   \<and> ''large'' \<notin> set AVAILABLE_MODELS"
  by (simp add: reachable_startup reachable_init)
     (simp add: startup_event_def get_model_def Let_def env_default_large_def env0_def world0_def
        AVAILABLE_MODELS_def)

section \<open>The transcribe handler: decoding the payload\<close>

lemma cleanup_nothing [simp]: "cleanup E None None w = w"
  by (simp add: cleanup_def)

text \<open>
  Claim C10.  A request whose \<open>audio\<close> field is the empty string is answered exactly as
  one without the field: HTTP 400 with the detail \<open>No audio data provided\<close>, and the state
  is left as it was, so no temporary file is created and no external call is made.
\<close>

theorem transcribe_empty_audio:
  "transcribe E (request\<lparr>r_audio := Some ''''\<rparr>) w = transcribe E (request\<lparr>r_audio := None\<rparr>) w
   \<and> transcribe E (request\<lparr>r_audio := Some ''''\<rparr>) w = (HTTPException 400 ''No audio data provided'', w)"
  by (simp add: transcribe_def Let_def)

theorem transcribe_empty_audio_witness:
  "transcribe env0 (request_hi\<lparr>r_audio := Some ''''\<rparr>) world0
     = (HTTPException 400 ''No audio data provided'', world0)
   \<and> files world0 = Map.empty"
  using conjunct2 [OF transcribe_empty_audio [of env0 request_hi world0]]
  by (simp add: world0_def)






lemma split_on_no_sep: "sep \<notin> set s \<Longrightarrow> split_on sep s = [s]"
  by (induction s) auto

lemma split_on_first_sep:
  "sep \<notin> set pre \<Longrightarrow> split_on sep (pre @ sep # rest) = pre # split_on sep rest"
  by (induction pre) auto

lemma decode_audio_prefixed:
  "CHR '','' \<notin> set pre \<Longrightarrow> CHR '','' \<notin> set post \<Longrightarrow>
   decode_audio E (pre @ CHR '','' # post) = b64decode E post"
  by (simp add: decode_audio_def split_on_first_sep split_on_no_sep)

lemma decode_audio_plain:
  "CHR '','' \<notin> set a \<Longrightarrow> decode_audio E a = b64decode E a"
  by (simp add: decode_audio_def)

lemma transcribe_try_decode_cong:
  "decode_audio E a = decode_audio E b \<Longrightarrow>
   transcribe_try E a m l f w = transcribe_try E b m l f w"
  by (simp add: transcribe_try_def)

text \<open>
  Claim C7.  For a data URL \<open>data:audio/ogg;base64,<payload>\<close> whose payload has no comma,
  the handler decodes exactly the payload; a value without a comma is decoded as it is.
  So the handler answers the data URL as it answers the bare payload, when that is not
  empty.
\<close>

theorem data_url_decoding:
  "(CHR '','' \<notin> set payload \<longrightarrow>
      decode_audio E (''data:audio/ogg;base64,'' @ payload) = b64decode E payload)
   \<and> (CHR '','' \<notin> set a \<longrightarrow> decode_audio E a = b64decode E a)
   \<and> (CHR '','' \<notin> set payload \<and> payload \<noteq> [] \<longrightarrow>
        transcribe E (request\<lparr>r_audio := Some (''data:audio/ogg;base64,'' @ payload)\<rparr>) w
          = transcribe E (request\<lparr>r_audio := Some payload\<rparr>) w)"
proof (intro conjI impI)
  assume "CHR '','' \<notin> set payload"
  then show "decode_audio E (''data:audio/ogg;base64,'' @ payload) = b64decode E payload"
    using decode_audio_prefixed [of "''data:audio/ogg;base64''" payload E] by simp
next
  assume "CHR '','' \<notin> set a"
  then show "decode_audio E a = b64decode E a" by (rule decode_audio_plain)
next
  assume p: "CHR '','' \<notin> set payload \<and> payload \<noteq> []"
  then have "decode_audio E (''data:audio/ogg;base64,'' @ payload) = decode_audio E payload"
    using decode_audio_prefixed [of "''data:audio/ogg;base64''" payload E]
    by (simp add: decode_audio_plain)
  then have "\<And>m l f. transcribe_try E (''data:audio/ogg;base64,'' @ payload) m l f w
               = transcribe_try E payload m l f w"
    by (rule transcribe_try_decode_cong)
  with p show "transcribe E (request\<lparr>r_audio := Some (''data:audio/ogg;base64,'' @ payload)\<rparr>) w
          = transcribe E (request\<lparr>r_audio := Some payload\<rparr>) w"
    by (simp add: transcribe_def Let_def)
qed

lemma b64decode_lib_hi: "b64decode_lib ''aGk='' = Inr [104, 105]"
  by (simp add: b64decode_lib_def b64_digit_def)

theorem data_url_decoding_witness:
  "CHR '','' \<notin> set ''aGk='' \<and> ''aGk='' \<noteq> []
   \<and> decode_audio env0 ''data:audio/ogg;base64,aGk='' = Inr [104, 105]
   \<and> decode_audio env0 ''aGk='' = Inr [104, 105]
   \<and> transcribe env0 (request_hi\<lparr>r_audio := Some ''data:audio/ogg;base64,aGk=''\<rparr>) world0
       = transcribe env0 (request_hi\<lparr>r_audio := Some ''aGk=''\<rparr>) world0"
  using data_url_decoding [of "''aGk=''" env0 "''aGk=''" request_hi world0]
  by (simp add: env0_def b64decode_lib_hi)

section \<open>The transcribe handler: assembling the result\<close>

lemma join_space_concat:
  "join sep (map f xs) =
     (case xs of [] \<Rightarrow> [] | x # rest \<Rightarrow> f x @ concat (map (\<lambda>y. sep @ f y) rest))"
proof (induction xs)
  case Nil
  show ?case by simp
next
  case (Cons x xs)
  then show ?case by (cases xs) simp_all
qed

text \<open>\<open>strip\<close> removes whitespace at both ends, and nothing else.\<close>

lemma last_dropWhile: "dropWhile P xs \<noteq> [] \<Longrightarrow> last (dropWhile P xs) = last xs"
  by (induction xs) (auto split: if_splits)

lemma strip_decompose:
  "\<exists>a b. s = a @ strip s @ b \<and> list_all isspace a \<and> list_all isspace b"
proof -
  let ?m = "dropWhile isspace s"
  have 1: "s = takeWhile isspace s @ ?m" by simp
  have "rev (takeWhile isspace (rev ?m) @ dropWhile isspace (rev ?m)) = rev (rev ?m)"
    by (simp only: takeWhile_dropWhile_id)
  then have "rev (dropWhile isspace (rev ?m)) @ rev (takeWhile isspace (rev ?m)) = ?m"
    by (simp only: rev_append rev_rev_ident)
  then have 3: "?m = strip s @ rev (takeWhile isspace (rev ?m))"
    by (simp only: strip_def)
  have "s = takeWhile isspace s @ strip s @ rev (takeWhile isspace (rev ?m))"
    using 1 3 by metis
  moreover have "list_all isspace (takeWhile isspace s)"
    by (simp add: list_all_iff) (metis set_takeWhileD)
  moreover have "list_all isspace (rev (takeWhile isspace (rev ?m)))"
    by (simp add: list_all_iff) (metis set_takeWhileD)
  ultimately show ?thesis by blast
qed

lemma strip_ends:
  assumes "strip s \<noteq> []"
  shows "\<not> isspace (hd (strip s)) \<and> \<not> isspace (last (strip s))"
proof -
  let ?m = "dropWhile isspace s"
  let ?d = "dropWhile isspace (rev ?m)"
  have d: "?d \<noteq> []" using assms by (simp add: strip_def)
  have m: "?m \<noteq> []"
  proof
    assume e: "?m = []"
    have "?d = []" unfolding e by simp
    with d show False by simp
  qed
  have "last (strip s) = hd ?d" using d by (simp add: strip_def last_rev)
  moreover have "\<not> isspace (hd ?d)" using d by (rule hd_dropWhile)
  moreover have "hd (strip s) = last ?d" using d by (simp add: strip_def hd_rev)
  moreover have "last ?d = last (rev ?m)" using d by (rule last_dropWhile)
  moreover have "last (rev ?m) = hd ?m" using m by (simp add: last_rev)
  moreover have "\<not> isspace (hd ?m)" using m by (rule hd_dropWhile)
  ultimately show ?thesis by simp
qed

lemma cleanup_trace [simp]: "trace (cleanup E t c w) = trace w"
  by (simp add: cleanup_def unlink_quietly_def Let_def split: option.splits)

lemma JSONResponse_render_Inr: "JSONResponse_render c0 = Inr c \<Longrightarrow> c = c0"
  by (auto simp: JSONResponse_render_def split: pyfloat.splits)

lemma transcribe_try_success:
  "transcribe_try E a m l f w = (Inr c, t, cp, w') \<Longrightarrow>
   \<exists>h p audio segs info.
      trace w' \<noteq> [] \<and> last (trace w') = EngineTranscribe h p audio l
      \<and> engine_transcribe E h p audio l = Inr (segs, info)
      \<and> c = \<lparr>c_text = join '' '' (map (\<lambda>s. strip (seg_text s)) segs),
              c_language = language info,
              c_language_probability = language_probability info,
              c_duration = duration info\<rparr>"
  unfolding transcribe_try_def Let_def
  by (auto split: sum.splits option.splits prod.splits if_splits
      dest!: JSONResponse_render_Inr)


text \<open>The sample request on the sample host, evaluated.\<close>

lemmas host_defs = env0_def world0_def request_hi_def
lemmas server_defs = transcribe_def transcribe_try_def JSONResponse_render_def
  decode_audio_def cleanup_def
  unlink_quietly_def convert_to_wav_def convert_try_def output_path_of_def ffmpeg_args_def
  get_model_def resolve_device_def resolve_compute_type_def Let_def
lemmas library_defs = b64decode_lib_def b64_digit_def lower_def lower_char_def
  CONVERT_FORMATS_def AVAILABLE_MODELS_def rsplit1_head_def strip_def isspace_def

lemma transcribe_hi_response:
  "fst (transcribe env0 request_hi world0) =
     JSONResponse \<lparr>c_text = ''Hello world.'', c_language = ''en'',
                    c_language_probability = Finite 1, c_duration = Finite 2\<rparr>"
  by (simp add: host_defs server_defs library_defs)

lemma transcribe_hi_trace:
  "trace (snd (transcribe env0 request_hi world0)) =
     [Which ''ffmpeg'',
      SubprocessRun [''/usr/bin/ffmpeg'', ''-y'', ''-i'', ''/tmp/tmpk3x9.ogg'', ''-ar'', ''16000'',
                     ''-ac'', ''1'', ''-c:a'', ''pcm_s16le'', ''/tmp/tmpk3x9_converted.wav''] 30,
      LoadModel ''base'' ''cpu'' ''int8'' ''/root/.cache/whisper'',
      EngineTranscribe 4 ''/tmp/tmpk3x9_converted.wav'' (Some [82, 73, 70, 70]) None]"
  by (simp add: host_defs server_defs library_defs)

lemma transcribe_hi_files:
  "dom (files (snd (transcribe env0 request_hi world0))) = {}"
  by (simp add: host_defs server_defs library_defs)

text \<open>
  Claim C8.  When the handler answers with a result, the engine call of the request (the
  last external call) yielded a list of segments and the metadata; the result's text is
  the stripped text of each segment, in the engine's order, with exactly one space between
  two neighbours, and \<open>language\<close>, \<open>language_probability\<close> and \<open>duration\<close> are the
  engine's, unchanged.
\<close>

theorem transcribe_result_fields:
  assumes "fst (transcribe E request w) = JSONResponse c"
  shows "\<exists>h p audio lang segs info.
           trace (snd (transcribe E request w)) \<noteq> []
         \<and> last (trace (snd (transcribe E request w))) = EngineTranscribe h p audio lang
         \<and> engine_transcribe E h p audio lang = Inr (segs, info)
         \<and> c_text c = (case segs of
                          [] \<Rightarrow> []
                        | s # rest \<Rightarrow>
                            strip (seg_text s) @ concat (map (\<lambda>t. '' '' @ strip (seg_text t)) rest))
         \<and> c_language c = language info
         \<and> c_language_probability c = language_probability info
         \<and> c_duration c = duration info"
proof -
  obtain a where a: "r_audio request = Some a" "a \<noteq> []"
    using assms by (auto simp: transcribe_def Let_def split: option.splits if_splits)
  define m where "m = (case r_model request of None \<Rightarrow> DEFAULT_MODEL E | Some m \<Rightarrow> m)"
  define l where "l = (case r_language request of None \<Rightarrow> None
                       | Some l \<Rightarrow> if l = ''auto'' \<or> l = [] then None else Some l)"
  define f where "f = (case r_format request of None \<Rightarrow> ''ogg'' | Some f \<Rightarrow> f)"
  obtain out t cp w1 where tr: "transcribe_try E a m l f w = (out, t, cp, w1)"
    by (metis prod_cases4)
  have whole: "transcribe E request w =
      ((case out of Inl e \<Rightarrow> HTTPException 500 e | Inr c \<Rightarrow> JSONResponse c), cleanup E t cp w1)"
    using a tr by (simp add: transcribe_def Let_def m_def l_def f_def)
  then have out: "out = Inr c" using assms by (cases out) simp_all
  from transcribe_try_success [OF tr [unfolded out]]
  show ?thesis unfolding whole by (auto simp: join_space_concat)
qed

theorem transcribe_result_fields_witness:
  "fst (transcribe env0 request_hi world0) =
     JSONResponse \<lparr>c_text = ''Hello world.'', c_language = ''en'',
                    c_language_probability = Finite 1, c_duration = Finite 2\<rparr>
   \<and> last (trace (snd (transcribe env0 request_hi world0)))
       = EngineTranscribe 4 ''/tmp/tmpk3x9_converted.wav'' (Some [82, 73, 70, 70]) None
   \<and> engine_transcribe env0 4 ''/tmp/tmpk3x9_converted.wav'' (Some [82, 73, 70, 70]) None
       = Inr ([\<lparr>seg_text = '' Hello''\<rparr>, \<lparr>seg_text = '' world. ''\<rparr>],
              \<lparr>language = ''en'', language_probability = Finite 1, duration = Finite 2\<rparr>)"
  using transcribe_result_fields [OF transcribe_hi_response]
  by (simp add: transcribe_hi_response transcribe_hi_trace) (simp add: env0_def)

section \<open>The audio normalizer\<close>

lemma rsplit1_head_split:
  assumes "sep \<in> set s"
  shows "\<exists>suf. s = rsplit1_head sep s @ sep # suf"
proof -
  let ?d = "dropWhile (\<lambda>c. c \<noteq> sep) (rev s)"
  have "sep \<in> set (rev s)" using assms by simp
  then have d: "?d \<noteq> []" by (auto simp: dropWhile_eq_Nil_conv)
  then have "hd ?d = sep" using hd_dropWhile [of "\<lambda>c. c \<noteq> sep" "rev s"] by simp
  with d have dd: "?d = sep # tl ?d" by (cases ?d) simp_all
  have "rev (takeWhile (\<lambda>c. c \<noteq> sep) (rev s) @ ?d) = rev (rev s)"
    by (simp only: takeWhile_dropWhile_id)
  then have "rev ?d @ rev (takeWhile (\<lambda>c. c \<noteq> sep) (rev s)) = s"
    by (simp only: rev_append rev_rev_ident)
  moreover have "rev ?d = rev (tl ?d) @ [sep]"
    using arg_cong [OF dd, of rev] by simp
  ultimately have "s = rev (tl ?d) @ sep # rev (takeWhile (\<lambda>c. c \<noteq> sep) (rev s))"
    by (metis append.assoc append_Cons append_Nil)
  then show ?thesis using assms by (auto simp: rsplit1_head_def)
qed

lemma output_path_differs: "output_path_of p \<noteq> p"
proof (cases "CHR ''.'' \<in> set p")
  case False
  then show ?thesis by (simp add: output_path_of_def rsplit1_head_def)
next
  case True
  then obtain suf where s: "p = rsplit1_head CHR ''.'' p @ CHR ''.'' # suf"
    using rsplit1_head_split by blast
  show ?thesis
  proof
    assume "output_path_of p = p"
    then have "rsplit1_head CHR ''.'' p @ ''_converted.wav'' = rsplit1_head CHR ''.'' p @ CHR ''.'' # suf"
      using s by (simp add: output_path_of_def)
    then show False by simp
  qed
qed

text \<open>
  Claim C5.  \<open>convert_to_wav\<close> always returns a path, the input path or the output path,
  which differ.  Without a transcoder on the host it returns the input path and does
  nothing else.  With one, it runs it with a timeout of 30 seconds: when the run raises
  (the timeout, or any other error), it returns the input path; when the run completes, it
  returns the output path if the return code is zero and the output file exists, and the
  input path otherwise.
\<close>

theorem convert_to_wav_fallback:
  "fst (convert_to_wav E p w) \<in> {p, output_path_of p}
   \<and> output_path_of p \<noteq> p
   \<and> (which E ''ffmpeg'' = None \<or> which E ''ffmpeg'' = Some [] \<longrightarrow>
        convert_to_wav E p w = (p, w\<lparr>trace := trace w @ [Which ''ffmpeg'']\<rparr>))
   \<and> (\<forall>fp. which E ''ffmpeg'' = Some fp \<and> fp \<noteq> [] \<longrightarrow>
        (case fst (subprocess_run E (ffmpeg_args fp p (output_path_of p)) 30 (files w p)) of
           RunRaised e \<Rightarrow> fst (convert_to_wav E p w) = p
         | CompletedProcess returncode err \<Rightarrow>
             fst (convert_to_wav E p w) =
               (if returncode = 0 \<and> output_path_of p \<in> dom (files (snd (convert_to_wav E p w)))
                then output_path_of p else p)))"
proof (intro conjI allI impI)
  show "fst (convert_to_wav E p w) \<in> {p, output_path_of p}"
    by (simp add: convert_to_wav_def convert_try_def Let_def
        split: option.splits proc_result.splits)
next
  show "output_path_of p \<noteq> p" by (rule output_path_differs)
next
  assume "which E ''ffmpeg'' = None \<or> which E ''ffmpeg'' = Some []"
  then show "convert_to_wav E p w = (p, w\<lparr>trace := trace w @ [Which ''ffmpeg'']\<rparr>)"
    by (auto simp: convert_to_wav_def Let_def)
next
  fix fp
  assume "which E ''ffmpeg'' = Some fp \<and> fp \<noteq> []"
  then show "case fst (subprocess_run E (ffmpeg_args fp p (output_path_of p)) 30 (files w p)) of
           RunRaised e \<Rightarrow> fst (convert_to_wav E p w) = p
         | CompletedProcess returncode err \<Rightarrow>
             fst (convert_to_wav E p w) =
               (if returncode = 0 \<and> output_path_of p \<in> dom (files (snd (convert_to_wav E p w)))
                then output_path_of p else p)"
    by (auto simp: convert_to_wav_def convert_try_def Let_def
        split: option.splits proc_result.splits)
qed

theorem convert_to_wav_fallback_witness:
  "which env0 ''ffmpeg'' = Some ''/usr/bin/ffmpeg''
   \<and> output_path_of ''/tmp/tmpk3x9.ogg'' = ''/tmp/tmpk3x9_converted.wav''
   \<and> subprocess_run env0 (ffmpeg_args ''/usr/bin/ffmpeg'' ''/tmp/tmpk3x9.ogg''
        ''/tmp/tmpk3x9_converted.wav'') 30 (Some [104, 105])
       = (CompletedProcess 0 (Some ''''), Some [82, 73, 70, 70])
   \<and> fst (convert_to_wav env0 ''/tmp/tmpk3x9.ogg'' world_ogg) = ''/tmp/tmpk3x9_converted.wav''
   \<and> fst (convert_to_wav env_no_ffmpeg ''/tmp/tmpk3x9.ogg'' world_ogg) = ''/tmp/tmpk3x9.ogg''
   \<and> fst (convert_to_wav env_ffmpeg_timeout ''/tmp/tmpk3x9.ogg'' world_ogg) = ''/tmp/tmpk3x9.ogg''"
  using convert_to_wav_fallback [of env0 "''/tmp/tmpk3x9.ogg''" world_ogg]
        convert_to_wav_fallback [of env_no_ffmpeg "''/tmp/tmpk3x9.ogg''" world_ogg]
        convert_to_wav_fallback [of env_ffmpeg_timeout "''/tmp/tmpk3x9.ogg''" world_ogg]
  by (simp add: env0_def env_no_ffmpeg_def env_ffmpeg_timeout_def world_ogg_def world0_def
      output_path_of_def rsplit1_head_def convert_to_wav_def convert_try_def ffmpeg_args_def Let_def)

section \<open>The transcribe handler: which formats are converted\<close>

lemma get_model_new_events:
  "get_model E n w = (r, w') \<Longrightarrow>
   files w' = files w \<and> (\<exists>evs. trace w' = trace w @ evs \<and> list_all (\<lambda>ev. \<not> is_converter_call ev \<and> engine_input ev = None) evs)"
  by (auto simp: get_model_def Let_def split: option.splits sum.splits)

lemma transcribe_try_unlisted:
  assumes "lower f \<notin> set CONVERT_FORMATS"
      and "transcribe_try E a m l f w = (out, t, cp, w')"
  shows "list_all (\<lambda>ev. \<not> is_converter_call ev) (new_events w w')
       \<and> (\<forall>bytes. decode_audio E a = Inr bytes \<longrightarrow>
            list_all (\<lambda>ev. engine_input ev = None \<or> engine_input ev = Some (Some bytes))
              (new_events w w'))"
  using assms unfolding transcribe_try_def Let_def new_events_def
  by (auto simp: list_all_iff split: sum.splits option.splits prod.splits
      dest!: get_model_new_events)

lemma new_events_cleanup [simp]: "new_events w (cleanup E t c w') = new_events w w'"
  by (simp add: new_events_def)

lemma new_events_self [simp]: "new_events w w = []"
  by (simp add: new_events_def)

text \<open>
  Claim C6.  A request makes a call of the converter (the search for the transcoder, or
  its run) only if its declared format, \<open>ogg\<close> when none is declared, is in lower case
  one of \<open>webm\<close>, \<open>ogg\<close>, \<open>mp4\<close>, \<open>m4a\<close>, \<open>opus\<close>, \<open>oga\<close>.  For every other format,
  the content of the file handed to the engine is the decoded bytes of the request.
\<close>

theorem conversion_only_for_listed_formats:
  "(list_ex is_converter_call (new_events w (snd (transcribe E request w))) \<longrightarrow>
      lower (case r_format request of None \<Rightarrow> ''ogg'' | Some f \<Rightarrow> f) \<in> set CONVERT_FORMATS)
   \<and> (lower (case r_format request of None \<Rightarrow> ''ogg'' | Some f \<Rightarrow> f) \<notin> set CONVERT_FORMATS \<longrightarrow>
        (\<forall>a bytes. r_audio request = Some a \<and> decode_audio E a = Inr bytes \<longrightarrow>
           list_all (\<lambda>ev. engine_input ev = None \<or> engine_input ev = Some (Some bytes))
             (new_events w (snd (transcribe E request w)))))"
proof -
  define f where "f = (case r_format request of None \<Rightarrow> ''ogg'' | Some f \<Rightarrow> f)"
  define m where "m = (case r_model request of None \<Rightarrow> DEFAULT_MODEL E | Some m \<Rightarrow> m)"
  define l where "l = (case r_language request of None \<Rightarrow> None
                       | Some l \<Rightarrow> if l = ''auto'' \<or> l = [] then None else Some l)"
  have unlisted: "list_all (\<lambda>ev. \<not> is_converter_call ev) (new_events w (snd (transcribe E request w)))
       \<and> (\<forall>a bytes. r_audio request = Some a \<and> decode_audio E a = Inr bytes \<longrightarrow>
            list_all (\<lambda>ev. engine_input ev = None \<or> engine_input ev = Some (Some bytes))
              (new_events w (snd (transcribe E request w))))"
    if u: "lower f \<notin> set CONVERT_FORMATS"
  proof (cases "r_audio request = None \<or> r_audio request = Some []")
    case True
    then have "snd (transcribe E request w) = w" by (auto simp: transcribe_def Let_def)
    then show ?thesis by simp
  next
    case False
    then obtain a where a: "r_audio request = Some a" "a \<noteq> []" by auto
    obtain out t cp w1 where tr: "transcribe_try E a m l f w = (out, t, cp, w1)"
      by (metis prod_cases4)
    have "snd (transcribe E request w) = cleanup E t cp w1"
      using a tr by (simp add: transcribe_def Let_def m_def l_def f_def)
    then show ?thesis using transcribe_try_unlisted [OF u tr] a by simp
  qed
  show ?thesis
    unfolding f_def [symmetric]
    using unlisted by (auto simp: list_all_iff list_ex_iff)
qed

lemma lower_WAV: "lower ''WAV'' = ''wav''"
  by code_simp

lemma lower_OGG: "lower ''OGG'' = ''ogg''"
  by code_simp

lemma transcribe_wav_events:
  "new_events world0 (snd (transcribe env0 request_wav world0))
     = [LoadModel ''base'' ''cpu'' ''int8'' ''/root/.cache/whisper'',
        EngineTranscribe 4 ''/tmp/tmpk3x9.WAV'' (Some [104, 105]) None]"
  by (simp add: request_wav_def new_events_def host_defs server_defs lower_WAV
      b64decode_lib_def b64_digit_def CONVERT_FORMATS_def AVAILABLE_MODELS_def)

lemma transcribe_OGG_events:
  "new_events world0 (snd (transcribe env0 (request_wav\<lparr>r_format := Some ''OGG''\<rparr>) world0))
     = [Which ''ffmpeg'',
        SubprocessRun (ffmpeg_args ''/usr/bin/ffmpeg'' ''/tmp/tmpk3x9.OGG''
                         ''/tmp/tmpk3x9_converted.wav'') 30,
        LoadModel ''base'' ''cpu'' ''int8'' ''/root/.cache/whisper'',
        EngineTranscribe 4 ''/tmp/tmpk3x9_converted.wav'' (Some [82, 73, 70, 70]) None]"
  by (simp add: request_wav_def new_events_def host_defs server_defs lower_OGG
      rsplit1_head_def b64decode_lib_def b64_digit_def CONVERT_FORMATS_def AVAILABLE_MODELS_def)

lemma request_wav_fields:
  "r_audio request_wav = Some ''aGk=''" "r_format request_wav = Some ''WAV''"
  by (simp_all add: request_wav_def)

lemma decode_audio_hi: "decode_audio env0 ''aGk='' = Inr [104, 105]"
  by (simp add: decode_audio_def env0_def b64decode_lib_def b64_digit_def)

theorem conversion_only_for_listed_formats_witness:
  "lower ''WAV'' \<notin> set CONVERT_FORMATS
   \<and> r_audio request_wav = Some ''aGk='' \<and> decode_audio env0 ''aGk='' = Inr [104, 105]
   \<and> new_events world0 (snd (transcribe env0 request_wav world0))
       = [LoadModel ''base'' ''cpu'' ''int8'' ''/root/.cache/whisper'',
          EngineTranscribe 4 ''/tmp/tmpk3x9.WAV'' (Some [104, 105]) None]
   \<and> lower ''OGG'' \<in> set CONVERT_FORMATS
   \<and> list_ex is_converter_call
        (new_events world0 (snd (transcribe env0 (request_wav\<lparr>r_format := Some ''OGG''\<rparr>) world0)))"
  using conversion_only_for_listed_formats [of world0 env0 request_wav]
        conversion_only_for_listed_formats [of world0 env0 "request_wav\<lparr>r_format := Some ''OGG''\<rparr>"]
  by (simp add: transcribe_wav_events transcribe_OGG_events lower_WAV lower_OGG
      CONVERT_FORMATS_def request_wav_fields decode_audio_hi ffmpeg_args_def)

section \<open>The transcribe handler: temporary files\<close>

lemma output_path_nonempty: "output_path_of p \<noteq> []"
  by (simp add: output_path_of_def)

lemma convert_to_wav_files:
  assumes "\<forall>args t input. snd (subprocess_run E args t input) \<noteq> None \<longrightarrow>
             (\<exists>err. fst (subprocess_run E args t input) = CompletedProcess 0 err)"
      and "convert_to_wav E p w = (q, w')"
  shows "(q = p \<and> files w' = files w)
       \<or> (q = output_path_of p \<and> (\<forall>x. x \<noteq> q \<longrightarrow> files w' x = files w x))"
proof (cases "\<exists>fp. which E ''ffmpeg'' = Some fp \<and> fp \<noteq> []")
  case False
  then show ?thesis using assms(2)
    by (auto simp: convert_to_wav_def Let_def split: option.splits if_splits)
next
  case True
  then obtain fp where fp: "which E ''ffmpeg'' = Some fp" "fp \<noteq> []" by blast
  let ?ran = "subprocess_run E (ffmpeg_args fp p (output_path_of p)) 30 (files w p)"
  show ?thesis
  proof (cases "snd ?ran")
    case None
    then show ?thesis using assms(2) fp
      by (auto simp: convert_to_wav_def convert_try_def Let_def
          split: proc_result.splits option.splits if_splits)
  next
    case (Some b)
    then obtain err where "fst ?ran = CompletedProcess 0 err" using assms(1) by fastforce
    then show ?thesis using assms(2) fp Some
      by (auto simp: convert_to_wav_def convert_try_def Let_def)
  qed
qed

lemma get_model_files_dest: "get_model E n w = (r, w') \<Longrightarrow> files w' = files w"
  using get_model_files [of E n w] by simp

lemma transcribe_try_files:
  assumes run: "\<forall>args t input. snd (subprocess_run E args t input) \<noteq> None \<longrightarrow>
             (\<exists>err. fst (subprocess_run E args t input) = CompletedProcess 0 err)"
      and wr: "\<forall>p b. tmp_write E p b = None"
      and tr: "transcribe_try E a m l f w = (out, t, cp, w1)"
  shows "t \<noteq> Some [] \<and> cp \<noteq> Some []
       \<and> (files w1 x = files w x \<or> t = Some x \<or> cp = Some x)"
proof (cases "decode_audio E a")
  case (Inl e)
  then show ?thesis using tr by (auto simp: transcribe_try_def)
next
  case (Inr bytes)
  note dec = this
  show ?thesis
  proof (cases "NamedTemporaryFile E (''.'' @ f)")
    case (Inl e)
    then show ?thesis using tr dec by (auto simp: transcribe_try_def)
  next
    case (Inr stem)
    define tmp where "tmp = stem @ ''.'' @ f"
    define w0 where "w0 = w\<lparr>files := (files w)(tmp \<mapsto> bytes)\<rparr>"
    have tmp_ne: "tmp \<noteq> []" by (simp add: tmp_def)
    have w0: "files w0 x = files w x \<or> x = tmp" by (simp add: w0_def)
    show ?thesis
    proof (cases "lower f \<in> set CONVERT_FORMATS")
      case False
      then show ?thesis using tr dec Inr wr tmp_ne
        by (auto simp: transcribe_try_def Let_def tmp_def
            split: sum.splits prod.splits option.splits if_splits
            dest!: get_model_files_dest)
    next
      case True
      obtain q w2 where conv: "convert_to_wav E tmp w0 = (q, w2)" by (metis surj_pair)
      from convert_to_wav_files [OF run conv]
      have q: "q \<noteq> []" "files w2 x = files w0 x \<or> x = q"
        using tmp_ne output_path_nonempty [of tmp] by auto
      show ?thesis using tr dec Inr wr True conv q w0 tmp_ne
        unfolding tmp_def w0_def
        by (auto simp: transcribe_try_def Let_def
            split: sum.splits prod.splits option.splits if_splits
            dest!: get_model_files_dest)
    qed
  qed
qed

lemma cleanup_files:
  assumes "\<forall>p. unlink_error E p = None"
  shows "files (cleanup E t cp w) x =
           (if (t = Some x \<and> x \<noteq> []) \<or> (cp = Some x \<and> x \<noteq> [] \<and> cp \<noteq> t) then None
            else files w x)"
  using assms by (auto simp: cleanup_def unlink_quietly_def Let_def split: option.splits)

text \<open>Nothing before the \<open>finally\<close> block depends on how \<open>os.unlink\<close> behaves.\<close>

lemma convert_try_ignores_unlink:
  "convert_try (E\<lparr>unlink_error := u\<rparr>) fp p q w = convert_try E fp p q w"
  by (simp add: convert_try_def)

lemma convert_to_wav_ignores_unlink:
  "convert_to_wav (E\<lparr>unlink_error := u\<rparr>) p w = convert_to_wav E p w"
  by (simp add: convert_to_wav_def convert_try_ignores_unlink Let_def split: option.splits)

lemma resolve_ignores_unlink:
  "resolve_device (E\<lparr>unlink_error := u\<rparr>) = resolve_device E"
  "resolve_compute_type (E\<lparr>unlink_error := u\<rparr>) d = resolve_compute_type E d"
  by (simp_all add: resolve_device_def resolve_compute_type_def)

lemma get_model_ignores_unlink:
  "get_model (E\<lparr>unlink_error := u\<rparr>) n w = get_model E n w"
  by (simp add: get_model_def resolve_ignores_unlink Let_def split: option.splits sum.splits)

lemma transcribe_try_ignores_unlink:
  "transcribe_try (E\<lparr>unlink_error := u\<rparr>) a m l f w = transcribe_try E a m l f w"
  by (simp add: transcribe_try_def decode_audio_def convert_to_wav_ignores_unlink
      get_model_ignores_unlink Let_def
      cong: sum.case_cong option.case_cong prod.case_cong if_cong)

lemma transcribe_response_ignores_unlink:
  "fst (transcribe (E\<lparr>unlink_error := u\<rparr>) request w) = fst (transcribe E request w)"
  by (simp add: transcribe_def transcribe_try_ignores_unlink Let_def
      split: option.splits prod.splits)

text \<open>
  Where the cleanup is complete.  On a host where \<open>os.unlink\<close> succeeds, where the
  transcoder leaves an output file only when it exits with zero, and where
  \<open>tmp_file.write\<close> does not raise, every file that exists after a request existed before
  it, with the same content.  Whatever \<open>os.unlink\<close> does, the response is the same: a
  failure to delete is swallowed.
\<close>

lemma files_restored_when_transcoder_clean:
  assumes unlink: "\<forall>p. unlink_error E p = None"
      and run: "\<forall>args t input. snd (subprocess_run E args t input) \<noteq> None \<longrightarrow>
                 (\<exists>err. fst (subprocess_run E args t input) = CompletedProcess 0 err)"
      and wr: "\<forall>p b. tmp_write E p b = None"
  shows "(files (snd (transcribe E request w)) x = None
          \<or> files (snd (transcribe E request w)) x = files w x)
       \<and> fst (transcribe (E\<lparr>unlink_error := u\<rparr>) request w) = fst (transcribe E request w)"
proof
  show "files (snd (transcribe E request w)) x = None
          \<or> files (snd (transcribe E request w)) x = files w x"
  proof (cases "r_audio request = None \<or> r_audio request = Some []")
    case True
    then have "snd (transcribe E request w) = w" by (auto simp: transcribe_def Let_def)
    then show ?thesis by simp
  next
    case False
    then obtain a where a: "r_audio request = Some a" "a \<noteq> []" by auto
    define f where "f = (case r_format request of None \<Rightarrow> ''ogg'' | Some f \<Rightarrow> f)"
    define m where "m = (case r_model request of None \<Rightarrow> DEFAULT_MODEL E | Some m \<Rightarrow> m)"
    define l where "l = (case r_language request of None \<Rightarrow> None
                         | Some l \<Rightarrow> if l = ''auto'' \<or> l = [] then None else Some l)"
    obtain out t cp w1 where tr: "transcribe_try E a m l f w = (out, t, cp, w1)"
      by (metis prod_cases4)
    have w': "snd (transcribe E request w) = cleanup E t cp w1"
      using a tr by (simp add: transcribe_def Let_def m_def l_def f_def)
    from transcribe_try_files [OF run wr tr, of x]
    have "t \<noteq> Some []" "cp \<noteq> Some []" "files w1 x = files w x \<or> t = Some x \<or> cp = Some x"
      by simp_all
    then show ?thesis unfolding w' cleanup_files [OF unlink] by auto
  qed
next
  show "fst (transcribe (E\<lparr>unlink_error := u\<rparr>) request w) = fst (transcribe E request w)"
    by (rule transcribe_response_ignores_unlink)
qed

lemma world0_files: "files world0 p = None"
  by (simp add: world0_def)

lemma env0_well_behaved:
  "\<forall>p. unlink_error env0 p = None"
  "\<forall>args t input. snd (subprocess_run env0 args t input) \<noteq> None \<longrightarrow>
     (\<exists>err. fst (subprocess_run env0 args t input) = CompletedProcess 0 err)"
  "\<forall>p b. tmp_write env0 p b = None"
  by (simp_all add: env0_def)

lemma files_restored_on_sample_host:
  "files (snd (transcribe env0 request_hi world0)) ''/tmp/tmpk3x9.ogg'' = None
   \<and> files (snd (transcribe env0 request_hi world0)) ''/tmp/tmpk3x9_converted.wav'' = None"
  using files_restored_when_transcoder_clean [OF env0_well_behaved, of request_hi world0
          "''/tmp/tmpk3x9.ogg''"]
        files_restored_when_transcoder_clean [OF env0_well_behaved, of request_hi world0
          "''/tmp/tmpk3x9_converted.wav''"]
  by (simp add: world0_def)

text \<open>
  Deleting is best effort: on a host where \<open>os.unlink\<close> fails, the response is unchanged
  and both the decoded file and the converted file remain.
\<close>

lemma transcribe_hi_unlink_fails_files:
  "files (snd (transcribe env_unlink_fails request_hi world0)) ''/tmp/tmpk3x9.ogg'' = Some [104, 105]"
  "files (snd (transcribe env_unlink_fails request_hi world0)) ''/tmp/tmpk3x9_converted.wav''
     = Some [82, 73, 70, 70]"
  by (simp_all add: env_unlink_fails_def host_defs server_defs library_defs)

lemma transcribe_hi_unlink_fails_response:
  "fst (transcribe env_unlink_fails request_hi world0) =
     JSONResponse \<lparr>c_text = ''Hello world.'', c_language = ''en'',
                    c_language_probability = Finite 1, c_duration = Finite 2\<rparr>"
  by (simp add: env_unlink_fails_def host_defs server_defs library_defs)

text \<open>
  A flush that fails when the \<open>with\<close> block is left raises after \<open>tmp_path\<close> is assigned:
  the answer is HTTP 500 and the \<open>finally\<close> block deletes the file.
\<close>

lemma transcribe_close_fails:
  "transcribe env_close_fails request_hi world0
     = (HTTPException 500 ''[Errno 28] No space left on device'', world0)"
  by (simp add: env_close_fails_def host_defs server_defs library_defs)

text \<open>
  Claim C3 has every temporary file of a request deleted on every exit path, the converted
  file included, so that none remains.  The code does not do that.  On a host where the
  transcoder creates its output file and then runs into the timeout, or exits with code 1,
  \<open>convert_to_wav\<close> returns the input path and leaves the output where it is; the handler
  then holds no converted path distinct from \<open>tmp_path\<close>, and its \<open>finally\<close> block deletes
  the decoded file only.  With every \<open>os.unlink\<close> succeeding, the request is answered and
  the converted file, which did not exist before, stays on disk.
\<close>

theorem converted_file_left_behind:
  "files world0 ''/tmp/tmpk3x9_converted.wav'' = None
   \<and> unlink_error env_ffmpeg_timeout ''/tmp/tmpk3x9_converted.wav'' = None
   \<and> fst (transcribe env_ffmpeg_timeout request_hi world0) =
       JSONResponse \<lparr>c_text = ''Hello world.'', c_language = ''en'',
                      c_language_probability = Finite 1, c_duration = Finite 2\<rparr>
   \<and> files (snd (transcribe env_ffmpeg_timeout request_hi world0)) ''/tmp/tmpk3x9.ogg'' = None
   \<and> files (snd (transcribe env_ffmpeg_timeout request_hi world0)) ''/tmp/tmpk3x9_converted.wav''
       = Some [82, 73]
   \<and> unlink_error env_ffmpeg_exit1 ''/tmp/tmpk3x9_converted.wav'' = None
   \<and> fst (transcribe env_ffmpeg_exit1 request_hi world0) =
       JSONResponse \<lparr>c_text = ''Hello world.'', c_language = ''en'',
                      c_language_probability = Finite 1, c_duration = Finite 2\<rparr>
   \<and> files (snd (transcribe env_ffmpeg_exit1 request_hi world0)) ''/tmp/tmpk3x9.ogg'' = None
   \<and> files (snd (transcribe env_ffmpeg_exit1 request_hi world0)) ''/tmp/tmpk3x9_converted.wav''
       = Some [82, 73]"
  by (simp add: env_ffmpeg_timeout_def env_ffmpeg_exit1_def host_defs server_defs library_defs)

end
